theory Spec2Isabelle
  imports Complex_Main
begin

section \<open>The PPO agent's constructor (tensorforce/agents/ppo.py)\<close>

text \<open>
  \<^verbatim>\<open>ProximalPolicyOptimization.__init__\<close> takes a flat set of hyperparameters, records
  them in \<^verbatim>\<open>self.spec\<close>, builds the nested configuration dictionaries and hands them to
  the constructor of \<^verbatim>\<open>TensorforceAgent\<close> as keyword arguments. Two \<^verbatim>\<open>assert\<close>
  statements guard the critic options.
\<close>

subsection \<open>Python values\<close>

text \<open>
  The arguments are untyped Python objects. A \<^verbatim>\<open>dict(k1=v1, k2=v2)\<close> keeps the order of
  its keywords, so it is an association list. A float is represented by the real number
  that its literal denotes: the constructor does no arithmetic on floats, it only passes
  them on, so nothing depends on rounding. \<^verbatim>\<open>x is None\<close> is equality with \<open>PyNone\<close>.
\<close>

datatype pyval =
    PyNone
  | PyBool bool
  | PyInt int
  | PyFloat real
  | PyStr string
  | PyList "pyval list"
  | PyDict "(string \<times> pyval) list"

text \<open>The only exception this constructor raises itself: a failed \<^verbatim>\<open>assert\<close>.\<close>

datatype error = AssertionError

text \<open>Keyword arguments of a call, and the \<^verbatim>\<open>OrderedDict\<close> of \<^verbatim>\<open>self.spec\<close>.\<close>

type_synonym kwargs = "(string \<times> pyval) list"

subsection \<open>The signature and its defaults\<close>

record ppo_args =
  states :: pyval
  actions :: pyval
  max_episode_timesteps :: pyval
  batch_size :: pyval
  network :: pyval
  memory :: pyval
  update_frequency :: pyval
  learning_rate :: pyval
  subsampling_fraction :: pyval
  optimization_steps :: pyval
  likelihood_ratio_clipping :: pyval
  discount :: pyval
  estimate_terminal :: pyval
  critic_network :: pyval
  critic_optimizer :: pyval
  preprocessing :: pyval
  exploration :: pyval
  variable_noise :: pyval
  l2_regularization :: pyval
  entropy_regularization :: pyval
  name :: pyval
  device :: pyval
  parallel_interactions :: pyval
  seed :: pyval
  execution :: pyval
  saver :: pyval
  summarizer :: pyval
  recorder :: pyval
  config :: pyval

text \<open>
  A call that gives only the four required arguments: every other parameter takes the
  default of the signature (lines 204 to 226).
\<close>

definition default_args :: "pyval \<Rightarrow> pyval \<Rightarrow> pyval \<Rightarrow> pyval \<Rightarrow> ppo_args" where
  "default_args s a m b = \<lparr>
     states = s, actions = a, max_episode_timesteps = m, batch_size = b,
     network = PyStr ''auto'',
     memory = PyNone,
     update_frequency = PyNone, learning_rate = PyFloat (3 / 10000),
     subsampling_fraction = PyFloat (33 / 100), optimization_steps = PyInt 10,
     likelihood_ratio_clipping = PyFloat (2 / 10), discount = PyFloat (99 / 100),
     estimate_terminal = PyBool False,
     critic_network = PyNone, critic_optimizer = PyNone,
     preprocessing = PyNone,
     exploration = PyFloat 0, variable_noise = PyFloat 0,
     l2_regularization = PyFloat 0, entropy_regularization = PyFloat 0,
     name = PyStr ''agent'', device = PyNone, parallel_interactions = PyInt 1,
     seed = PyNone, execution = PyNone, saver = PyNone, summarizer = PyNone,
     recorder = PyNone, config = PyNone \<rparr>"

subsection \<open>The constructor\<close>

text \<open>\<^verbatim>\<open>self.spec = OrderedDict(agent='ppo', ...)\<close>, lines 227 to 244.\<close>

definition agent_spec :: "ppo_args \<Rightarrow> kwargs" where
  "agent_spec a = [
     (''agent'', PyStr ''ppo''),
     (''states'', states a), (''actions'', actions a),
     (''max_episode_timesteps'', max_episode_timesteps a),
     (''batch_size'', batch_size a),
     (''network'', network a),
     (''memory'', memory a),
     (''update_frequency'', update_frequency a), (''learning_rate'', learning_rate a),
     (''subsampling_fraction'', subsampling_fraction a),
     (''optimization_steps'', optimization_steps a),
     (''likelihood_ratio_clipping'', likelihood_ratio_clipping a),
     (''discount'', discount a),
     (''estimate_terminal'', estimate_terminal a),
     (''critic_network'', critic_network a), (''critic_optimizer'', critic_optimizer a),
     (''preprocessing'', preprocessing a),
     (''exploration'', exploration a), (''variable_noise'', variable_noise a),
     (''l2_regularization'', l2_regularization a),
     (''entropy_regularization'', entropy_regularization a),
     (''name'', name a), (''device'', device a),
     (''parallel_interactions'', parallel_interactions a), (''seed'', seed a),
     (''execution'', execution a), (''saver'', saver a), (''summarizer'', summarizer a),
     (''recorder'', recorder a), (''config'', config a)]"

text \<open>
  The keyword arguments of \<^verbatim>\<open>super().__init__(...)\<close>, lines 278 to 292, from the
  arguments and the eight derived blocks. \<^verbatim>\<open>TensorforceAgent\<close> is not part of this
  file: the call is represented by what it is given.
\<close>

definition super_init ::
  "ppo_args \<Rightarrow> pyval \<Rightarrow> pyval \<Rightarrow> pyval \<Rightarrow> pyval \<Rightarrow> pyval \<Rightarrow> pyval \<Rightarrow> pyval \<Rightarrow> pyval \<Rightarrow> kwargs"
where
  "super_init a policy memory' update optimizer objective reward_estimation
       baseline_policy baseline_objective = [
     (''states'', states a), (''actions'', actions a),
     (''max_episode_timesteps'', max_episode_timesteps a),
     (''parallel_interactions'', parallel_interactions a),
     (''buffer_observe'', PyBool True), (''seed'', seed a),
     (''recorder'', recorder a), (''config'', config a),
     (''name'', name a), (''device'', device a), (''execution'', execution a),
     (''saver'', saver a), (''summarizer'', summarizer a),
     (''preprocessing'', preprocessing a), (''exploration'', exploration a),
     (''variable_noise'', variable_noise a),
     (''l2_regularization'', l2_regularization a),
     (''policy'', policy), (''memory'', memory'), (''update'', update),
     (''optimizer'', optimizer), (''objective'', objective),
     (''reward_estimation'', reward_estimation), (''baseline_policy'', baseline_policy),
     (''baseline_optimizer'', critic_optimizer a),
     (''baseline_objective'', baseline_objective),
     (''entropy_regularization'', entropy_regularization a)]"

text \<open>
  The body, lines 227 to 292. The result is the value of \<^verbatim>\<open>self.spec\<close>, which is
  assigned before anything can fail, and either the \<^verbatim>\<open>AssertionError\<close> that was raised
  or the keyword arguments the superclass constructor is called with. As in the source,
  \<^verbatim>\<open>memory\<close> is rebound once and \<^verbatim>\<open>optimizer\<close> three times, and in each branch the
  assertion comes after \<^verbatim>\<open>reward_estimation\<close> and \<^verbatim>\<open>baseline_policy\<close> are bound.
  Assertions are taken as enabled (the interpreter runs without \<^verbatim>\<open>-O\<close>).
\<close>

definition ppo_init :: "ppo_args \<Rightarrow> kwargs \<times> (error + kwargs)" where
  "ppo_init a =
    (let self_spec = agent_spec a;
         policy = PyDict [(''network'', network a), (''temperature'', PyFloat 1)];
         memory =
           (if memory a = PyNone then PyDict [(''type'', PyStr ''recent'')]
            else PyDict [(''type'', PyStr ''recent''), (''capacity'', memory a)]);
         update =
           (if update_frequency a = PyNone
            then PyDict [(''unit'', PyStr ''episodes''), (''batch_size'', batch_size a)]
            else PyDict [(''unit'', PyStr ''episodes''), (''batch_size'', batch_size a),
                         (''frequency'', update_frequency a)]);
         optimizer = PyDict [(''type'', PyStr ''adam''), (''learning_rate'', learning_rate a)];
         optimizer = PyDict [(''type'', PyStr ''subsampling_step''), (''optimizer'', optimizer),
                             (''fraction'', subsampling_fraction a)];
         optimizer = PyDict [(''type'', PyStr ''multi_step''), (''optimizer'', optimizer),
                             (''num_steps'', optimization_steps a)];
         objective = PyDict [(''type'', PyStr ''policy_gradient''), (''ratio_based'', PyBool True),
                             (''clipping_value'', likelihood_ratio_clipping a)];
         critic =
           (if critic_network a = PyNone then
              (let reward_estimation =
                     PyDict [(''horizon'', PyStr ''episode''), (''discount'', discount a)];
                   baseline_policy = PyNone
               in if critic_optimizer a \<noteq> PyNone then Inl AssertionError
                  else (let baseline_objective = PyNone
                        in Inr (reward_estimation, baseline_policy, baseline_objective)))
            else
              (let reward_estimation =
                     PyDict [(''horizon'', PyStr ''episode''), (''discount'', discount a),
                             (''estimate_horizon'',
                                (if critic_network a = PyNone then PyBool False
                                 else PyStr ''early'')),
                             (''estimate_terminal'', estimate_terminal a),
                             (''estimate_advantage'', PyBool True)];
                   baseline_policy = PyDict [(''network'', critic_network a)]
               in if critic_optimizer a = PyNone then Inl AssertionError
                  else (let baseline_objective =
                              PyDict [(''type'', PyStr ''value''), (''value'', PyStr ''state'')]
                        in Inr (reward_estimation, baseline_policy, baseline_objective))))
     in (self_spec,
         case critic of
           Inl e \<Rightarrow> Inl e
         | Inr (reward_estimation, baseline_policy, baseline_objective) \<Rightarrow>
             Inr (super_init a policy memory update optimizer objective reward_estimation
                    baseline_policy baseline_objective)))"

text \<open>The keys of a dictionary; of any other value, none.\<close>

fun keys :: "pyval \<Rightarrow> string set" where
  "keys (PyDict d) = fst ` set d"
| "keys _ = {}"

text \<open>
  The types of the stages of an optimizer configuration, outermost first: the \<^verbatim>\<open>type\<close>
  of the dictionary, then the stages of the dictionary under its \<^verbatim>\<open>optimizer\<close> key,
  if it has one.
\<close>

lemma map_of_size: "map_of d k = Some v \<Longrightarrow> size v < Suc (size_list (size_prod (\<lambda>_. 0) size) d)"
  by (induction d) (auto split: if_splits)

function stage_types :: "pyval \<Rightarrow> string list" where
  "stage_types (PyDict d) =
     (case map_of d ''type'' of
        Some (PyStr t) \<Rightarrow>
          t # (case map_of d ''optimizer'' of Some v \<Rightarrow> stage_types v | None \<Rightarrow> [])
      | _ \<Rightarrow> [])"
| "stage_types PyNone = []"
| "stage_types (PyBool _) = []"
| "stage_types (PyInt _) = []"
| "stage_types (PyFloat _) = []"
| "stage_types (PyStr _) = []"
| "stage_types (PyList _) = []"
  by pat_completeness auto
termination
  by (relation "measure size") (auto dest: map_of_size)

text \<open>
  An example call with only the required arguments:
  \<^verbatim>\<open>ProximalPolicyOptimization(states=dict(type='float', shape=4),
  actions=dict(type='int', num_values=2), max_episode_timesteps=100, batch_size=10)\<close>.
\<close>

definition example_args :: ppo_args where
  "example_args =
     default_args (PyDict [(''type'', PyStr ''float''), (''shape'', PyInt 4)])
       (PyDict [(''type'', PyStr ''int''), (''num_values'', PyInt 2)]) (PyInt 100) (PyInt 10)"

section \<open>Properties\<close>

lemma super_init_lookup:
  "map_of (super_init a p m u opt obj re bp bo) ''memory'' = Some m"
  "map_of (super_init a p m u opt obj re bp bo) ''optimizer'' = Some opt"
  "map_of (super_init a p m u opt obj re bp bo) ''reward_estimation'' = Some re"
  "map_of (super_init a p m u opt obj re bp bo) ''baseline_policy'' = Some bp"
  "map_of (super_init a p m u opt obj re bp bo) ''baseline_objective'' = Some bo"
  by (simp_all add: super_init_def)

subsection \<open>The critic assertions\<close>

text \<open>
  C1. The constructor raises \<^verbatim>\<open>AssertionError\<close> exactly when one of
  \<^verbatim>\<open>critic_network\<close> and \<^verbatim>\<open>critic_optimizer\<close> is \<^verbatim>\<open>None\<close> and the other is not: it is
  raised when the network is \<^verbatim>\<open>None\<close> and the optimizer is given, and when the network is
  given and the optimizer is \<^verbatim>\<open>None\<close>; when both are \<^verbatim>\<open>None\<close> or both are given, no
  assertion fires and the superclass constructor is called.
\<close>

theorem critic_assertion:
  "(critic_network a = PyNone \<and> critic_optimizer a \<noteq> PyNone \<longrightarrow>
      snd (ppo_init a) = Inl AssertionError) \<and>
   (critic_network a \<noteq> PyNone \<and> critic_optimizer a = PyNone \<longrightarrow>
      snd (ppo_init a) = Inl AssertionError) \<and>
   (critic_network a = PyNone \<and> critic_optimizer a = PyNone \<longrightarrow>
      (\<exists>kw. snd (ppo_init a) = Inr kw)) \<and>
   (critic_network a \<noteq> PyNone \<and> critic_optimizer a \<noteq> PyNone \<longrightarrow>
      (\<exists>kw. snd (ppo_init a) = Inr kw)) \<and>
   ((\<exists>e. snd (ppo_init a) = Inl e) \<longleftrightarrow>
      (critic_network a = PyNone) \<noteq> (critic_optimizer a = PyNone))"
  by (simp add: ppo_init_def Let_def)

theorem critic_assertion_witness:
  "(critic_network (example_args\<lparr>critic_optimizer := PyStr ''adam''\<rparr>) = PyNone \<and>
    critic_optimizer (example_args\<lparr>critic_optimizer := PyStr ''adam''\<rparr>) \<noteq> PyNone \<and>
    snd (ppo_init (example_args\<lparr>critic_optimizer := PyStr ''adam''\<rparr>)) = Inl AssertionError) \<and>
   (critic_network (example_args\<lparr>critic_network := PyStr ''auto''\<rparr>) \<noteq> PyNone \<and>
    critic_optimizer (example_args\<lparr>critic_network := PyStr ''auto''\<rparr>) = PyNone \<and>
    snd (ppo_init (example_args\<lparr>critic_network := PyStr ''auto''\<rparr>)) = Inl AssertionError) \<and>
   (critic_network example_args = PyNone \<and> critic_optimizer example_args = PyNone \<and>
    (\<exists>kw. snd (ppo_init example_args) = Inr kw)) \<and>
   (critic_network
      (example_args\<lparr>critic_network := PyStr ''auto'', critic_optimizer := PyStr ''adam''\<rparr>)
      \<noteq> PyNone \<and>
    critic_optimizer
      (example_args\<lparr>critic_network := PyStr ''auto'', critic_optimizer := PyStr ''adam''\<rparr>)
      \<noteq> PyNone \<and>
    (\<exists>kw. snd (ppo_init
       (example_args\<lparr>critic_network := PyStr ''auto'', critic_optimizer := PyStr ''adam''\<rparr>))
       = Inr kw))"
  using critic_assertion [of "example_args\<lparr>critic_optimizer := PyStr ''adam''\<rparr>"]
    critic_assertion [of "example_args\<lparr>critic_network := PyStr ''auto''\<rparr>"]
    critic_assertion [of example_args]
    critic_assertion
      [of "example_args\<lparr>critic_network := PyStr ''auto'', critic_optimizer := PyStr ''adam''\<rparr>"]
  by (simp add: example_args_def default_args_def)

subsection \<open>The memory block\<close>

text \<open>
  C4. Every construction (one whose critic options are consistent, so that no assertion
  fires) reaches the superclass constructor, and the \<^verbatim>\<open>memory\<close> block it passes on is:
  with \<^verbatim>\<open>memory=None\<close>, exactly \<^verbatim>\<open>{type: 'recent'}\<close>, with no \<^verbatim>\<open>capacity\<close> key; with
  \<^verbatim>\<open>memory=n\<close>, \<^verbatim>\<open>n\<close> not \<^verbatim>\<open>None\<close>, exactly \<^verbatim>\<open>{type: 'recent', capacity: n}\<close>.
\<close>

theorem memory_block:
  "(critic_network a = PyNone) = (critic_optimizer a = PyNone) \<Longrightarrow>
     (memory a = PyNone \<longrightarrow>
        (\<exists>kw blk. snd (ppo_init a) = Inr kw \<and> map_of kw ''memory'' = Some blk \<and>
               blk = PyDict [(''type'', PyStr ''recent'')] \<and> ''capacity'' \<notin> keys blk)) \<and>
     (memory a \<noteq> PyNone \<longrightarrow>
        (\<exists>kw. snd (ppo_init a) = Inr kw \<and>
           map_of kw ''memory'' =
             Some (PyDict [(''type'', PyStr ''recent''), (''capacity'', memory a)])))"
  by (simp add: ppo_init_def Let_def super_init_lookup)

theorem memory_block_witness:
  "((critic_network example_args = PyNone) = (critic_optimizer example_args = PyNone) \<and>
    memory example_args = PyNone \<and>
    (\<exists>kw. snd (ppo_init example_args) = Inr kw \<and>
          map_of kw ''memory'' = Some (PyDict [(''type'', PyStr ''recent'')]))) \<and>
   ((critic_network
       (example_args\<lparr>memory := PyInt 7, critic_network := PyStr ''auto'',
          critic_optimizer := PyStr ''adam''\<rparr>) = PyNone) =
    (critic_optimizer
       (example_args\<lparr>memory := PyInt 7, critic_network := PyStr ''auto'',
          critic_optimizer := PyStr ''adam''\<rparr>) = PyNone) \<and>
    memory
      (example_args\<lparr>memory := PyInt 7, critic_network := PyStr ''auto'',
         critic_optimizer := PyStr ''adam''\<rparr>) \<noteq> PyNone \<and>
    (\<exists>kw. snd (ppo_init
              (example_args\<lparr>memory := PyInt 7, critic_network := PyStr ''auto'',
                 critic_optimizer := PyStr ''adam''\<rparr>)) = Inr kw \<and>
          map_of kw ''memory'' =
            Some (PyDict [(''type'', PyStr ''recent''), (''capacity'', PyInt 7)])))"
proof -
  have c1: "(critic_network example_args = PyNone) = (critic_optimizer example_args = PyNone)"
    by (simp add: example_args_def default_args_def)
  have m1: "memory example_args = PyNone"
    by (simp add: example_args_def default_args_def)
  have c2: "(critic_network
       (example_args\<lparr>memory := PyInt 7, critic_network := PyStr ''auto'',
          critic_optimizer := PyStr ''adam''\<rparr>) = PyNone) =
    (critic_optimizer
       (example_args\<lparr>memory := PyInt 7, critic_network := PyStr ''auto'',
          critic_optimizer := PyStr ''adam''\<rparr>) = PyNone)"
    by simp
  show ?thesis
    using c1 m1 memory_block [OF c1] memory_block [OF c2] by simp
qed

subsection \<open>The optimizer chain\<close>

text \<open>
  C2. Every construction (one whose critic options are consistent, so that no assertion
  fires), whatever the other arguments, reaches the superclass constructor, and the
  \<^verbatim>\<open>optimizer\<close> it passes on is a chain of exactly three nested stages, in the fixed
  order \<^verbatim>\<open>multi_step\<close> around \<^verbatim>\<open>subsampling_step\<close> around \<^verbatim>\<open>adam\<close>, carrying
  \<^verbatim>\<open>optimization_steps\<close>, \<^verbatim>\<open>subsampling_fraction\<close> and \<^verbatim>\<open>learning_rate\<close>. A construction
  with only the required arguments succeeds, and there \<^verbatim>\<open>adam\<close> has
  \<^verbatim>\<open>learning_rate=3e-4\<close>, the subsampling stage \<^verbatim>\<open>fraction=0.33\<close> and the multi-step
  stage \<^verbatim>\<open>num_steps=10\<close>.
\<close>

theorem optimizer_chain:
  "((critic_network a = PyNone) = (critic_optimizer a = PyNone) \<longrightarrow>
      (\<exists>kw opt. snd (ppo_init a) = Inr kw \<and> map_of kw ''optimizer'' = Some opt \<and>
         opt = PyDict [(''type'', PyStr ''multi_step''),
                 (''optimizer'',
                    PyDict [(''type'', PyStr ''subsampling_step''),
                      (''optimizer'',
                         PyDict [(''type'', PyStr ''adam''), (''learning_rate'', learning_rate a)]),
                      (''fraction'', subsampling_fraction a)]),
                 (''num_steps'', optimization_steps a)] \<and>
         stage_types opt = [''multi_step'', ''subsampling_step'', ''adam''])) \<and>
   (\<exists>kw'. snd (ppo_init (default_args s ac m b)) = Inr kw' \<and>
      map_of kw' ''optimizer'' =
        Some (PyDict [(''type'', PyStr ''multi_step''),
                (''optimizer'',
                   PyDict [(''type'', PyStr ''subsampling_step''),
                     (''optimizer'',
                        PyDict [(''type'', PyStr ''adam''),
                          (''learning_rate'', PyFloat (3 / 10000))]),
                     (''fraction'', PyFloat (33 / 100))]),
                (''num_steps'', PyInt 10)]))"
proof (intro conjI impI)
  assume "(critic_network a = PyNone) = (critic_optimizer a = PyNone)"
  then show "\<exists>kw opt. snd (ppo_init a) = Inr kw \<and> map_of kw ''optimizer'' = Some opt \<and>
         opt = PyDict [(''type'', PyStr ''multi_step''),
                 (''optimizer'',
                    PyDict [(''type'', PyStr ''subsampling_step''),
                      (''optimizer'',
                         PyDict [(''type'', PyStr ''adam''), (''learning_rate'', learning_rate a)]),
                      (''fraction'', subsampling_fraction a)]),
                 (''num_steps'', optimization_steps a)] \<and>
         stage_types opt = [''multi_step'', ''subsampling_step'', ''adam'']"
    by (simp add: ppo_init_def Let_def super_init_lookup)
next
  show "\<exists>kw'. snd (ppo_init (default_args s ac m b)) = Inr kw' \<and>
      map_of kw' ''optimizer'' =
        Some (PyDict [(''type'', PyStr ''multi_step''),
                (''optimizer'',
                   PyDict [(''type'', PyStr ''subsampling_step''),
                     (''optimizer'',
                        PyDict [(''type'', PyStr ''adam''),
                          (''learning_rate'', PyFloat (3 / 10000))]),
                     (''fraction'', PyFloat (33 / 100))]),
                (''num_steps'', PyInt 10)])"
    by (simp add: ppo_init_def Let_def super_init_lookup default_args_def)
qed

theorem optimizer_chain_witness:
  "(critic_network
      (example_args\<lparr>learning_rate := PyFloat (1 / 100),
         subsampling_fraction := PyFloat (1 / 2), optimization_steps := PyInt 5,
         critic_network := PyStr ''auto'', critic_optimizer := PyStr ''adam''\<rparr>) = PyNone) =
   (critic_optimizer
      (example_args\<lparr>learning_rate := PyFloat (1 / 100),
         subsampling_fraction := PyFloat (1 / 2), optimization_steps := PyInt 5,
         critic_network := PyStr ''auto'', critic_optimizer := PyStr ''adam''\<rparr>) = PyNone) \<and>
   (\<exists>kw. snd (ppo_init
             (example_args\<lparr>learning_rate := PyFloat (1 / 100),
                subsampling_fraction := PyFloat (1 / 2), optimization_steps := PyInt 5,
                critic_network := PyStr ''auto'', critic_optimizer := PyStr ''adam''\<rparr>))
           = Inr kw \<and>
      map_of kw ''optimizer'' =
        Some (PyDict [(''type'', PyStr ''multi_step''),
                (''optimizer'',
                   PyDict [(''type'', PyStr ''subsampling_step''),
                     (''optimizer'',
                        PyDict [(''type'', PyStr ''adam''),
                          (''learning_rate'', PyFloat (1 / 100))]),
                     (''fraction'', PyFloat (1 / 2))]),
                (''num_steps'', PyInt 5)]))"
  using optimizer_chain
    [of "example_args\<lparr>learning_rate := PyFloat (1 / 100),
           subsampling_fraction := PyFloat (1 / 2), optimization_steps := PyInt 5,
           critic_network := PyStr ''auto'', critic_optimizer := PyStr ''adam''\<rparr>"]
  by simp

subsection \<open>Construction without a critic\<close>

text \<open>
  C3. When \<^verbatim>\<open>critic_network\<close> and \<^verbatim>\<open>critic_optimizer\<close> are both \<^verbatim>\<open>None\<close>, the
  construction reaches the superclass constructor with \<^verbatim>\<open>baseline_policy=None\<close> and
  \<^verbatim>\<open>baseline_objective=None\<close>, and \<^verbatim>\<open>reward_estimation\<close> is exactly
  \<^verbatim>\<open>{horizon: 'episode', discount: discount}\<close>, with none of the keys
  \<^verbatim>\<open>estimate_horizon\<close>, \<^verbatim>\<open>estimate_terminal\<close>, \<^verbatim>\<open>estimate_advantage\<close>.
\<close>

theorem no_critic_blocks:
  "critic_network a = PyNone \<Longrightarrow> critic_optimizer a = PyNone \<Longrightarrow>
     \<exists>kw re. snd (ppo_init a) = Inr kw \<and>
       map_of kw ''baseline_policy'' = Some PyNone \<and>
       map_of kw ''baseline_objective'' = Some PyNone \<and>
       map_of kw ''reward_estimation'' = Some re \<and>
       re = PyDict [(''horizon'', PyStr ''episode''), (''discount'', discount a)] \<and>
       ''estimate_horizon'' \<notin> keys re \<and> ''estimate_terminal'' \<notin> keys re \<and>
       ''estimate_advantage'' \<notin> keys re"
  by (simp add: ppo_init_def Let_def super_init_lookup)

theorem no_critic_blocks_witness:
  "critic_network example_args = PyNone \<and> critic_optimizer example_args = PyNone \<and>
   (\<exists>kw. snd (ppo_init example_args) = Inr kw \<and>
      map_of kw ''baseline_policy'' = Some PyNone \<and>
      map_of kw ''baseline_objective'' = Some PyNone \<and>
      map_of kw ''reward_estimation'' =
        Some (PyDict [(''horizon'', PyStr ''episode''), (''discount'', PyFloat (99 / 100))]))"
proof -
  have n: "critic_network example_args = PyNone"
    by (simp add: example_args_def default_args_def)
  have o: "critic_optimizer example_args = PyNone"
    by (simp add: example_args_def default_args_def)
  have d: "discount example_args = PyFloat (99 / 100)"
    by (simp add: example_args_def default_args_def)
  show ?thesis
    using n o no_critic_blocks [OF n o] by (auto simp add: d)
qed

end
